theory Spec2Isabelle
  imports Complex_Main
begin

section \<open>The trajectory script \<^verbatim>\<open>atlas.py\<close>\<close>

text \<open>
  The script queries an ephemeris service for one comet and three planets, computes the
  index of a highlighted date, draws a static scene and animates the comet and the
  planets frame by frame. The embedding follows the script from top to bottom. Exceptions
  are values of \<open>py_error\<close>; the plot artists, which the callback mutates, live in a store
  indexed by the artist's identity. A sample is the real number its double denotes: the
  fetch, the callback and the driver only copy, slice and index samples, and the sentinel
  \<open>1e10\<close> is an integer. Where the script computes with doubles, for the orbit curves and
  for the printed distance, the arithmetic is a parameter of the model.
\<close>

datatype py_error = ValueError | IndexError | KeyError | QueryError

subsection \<open>Indexing and slicing of a one-dimensional array\<close>

text \<open>
  \<^verbatim>\<open>a[i]\<close>: a negative index counts from the end, an index outside the array raises
  \<^verbatim>\<open>IndexError\<close>.
\<close>

definition getitem :: "'a list \<Rightarrow> int \<Rightarrow> py_error + 'a" where
  "getitem a i =
     (let j = (if i < 0 then i + int (length a) else i)
      in if j < 0 \<or> int (length a) \<le> j then Inl IndexError else Inr (a ! nat j))"

text \<open>
  \<^verbatim>\<open>a[:stop]\<close>: a negative stop counts from the end, and the bound is clipped to the
  array; slicing never raises.
\<close>

definition slice_upto :: "'a list \<Rightarrow> int \<Rightarrow> 'a list" where
  "slice_upto a stop =
     (let s = (if stop < 0 then max 0 (stop + int (length a)) else min stop (int (length a)))
      in take (nat s) a)"

text \<open>A dictionary that keeps insertion order: \<^verbatim>\<open>d[k]\<close> and \<^verbatim>\<open>d[k] = v\<close>.\<close>

fun dict_get :: "('k \<times> 'v) list \<Rightarrow> 'k \<Rightarrow> py_error + 'v" where
  "dict_get [] k = Inl KeyError"
| "dict_get ((k', v) # rest) k = (if k' = k then Inr v else dict_get rest k)"

fun dict_set :: "('k \<times> 'v) list \<Rightarrow> 'k \<Rightarrow> 'v \<Rightarrow> ('k \<times> 'v) list" where
  "dict_set [] k v = [(k, v)]"
| "dict_set ((k', v') # rest) k v =
     (if k' = k then (k, v) # rest else (k', v') # dict_set rest k v)"

subsection \<open>Calendar dates (the \<^verbatim>\<open>datetime\<close> library, midnight values only)\<close>

text \<open>
  Both datetimes of the script are at midnight, so a datetime is its calendar date and the
  \<^verbatim>\<open>days\<close> of a difference is the difference of the proleptic Gregorian ordinals.
\<close>

record datetime =
  year :: int
  month :: int
  day :: int

definition is_leap :: "int \<Rightarrow> bool" where
  "is_leap yr = (yr mod 4 = 0 \<and> (yr mod 100 \<noteq> 0 \<or> yr mod 400 = 0))"

definition days_before_year :: "int \<Rightarrow> int" where
  "days_before_year yr = (let p = yr - 1 in p * 365 + p div 4 - p div 100 + p div 400)"

definition days_in_month :: "int \<Rightarrow> int \<Rightarrow> int" where
  "days_in_month yr mo =
     (if mo = 2 \<and> is_leap yr then 29
      else [31, 28, 31, 30, 31, 30, 31, 31, 30, 31, 30, 31] ! nat (mo - 1))"

definition days_before_month :: "int \<Rightarrow> int \<Rightarrow> int" where
  "days_before_month yr mo =
     [0, 31, 59, 90, 120, 151, 181, 212, 243, 273, 304, 334] ! nat (mo - 1)
       + (if 2 < mo \<and> is_leap yr then 1 else 0)"

definition toordinal :: "datetime \<Rightarrow> int" where
  "toordinal t = days_before_year (year t) + days_before_month (year t) (month t) + day t"

text \<open>\<^verbatim>\<open>datetime(y, m, d)\<close> raises \<^verbatim>\<open>ValueError\<close> outside the calendar.\<close>

definition mk_datetime :: "int \<Rightarrow> int \<Rightarrow> int \<Rightarrow> py_error + datetime" where
  "mk_datetime yr mo dy =
     (if 1 \<le> yr \<and> yr \<le> 9999 \<and> 1 \<le> mo \<and> mo \<le> 12 \<and> 1 \<le> dy \<and> dy \<le> days_in_month yr mo
      then Inr \<lparr>year = yr, month = mo, day = dy\<rparr>
      else Inl ValueError)"

text \<open>\<^verbatim>\<open>(b - a).days\<close> for two midnight datetimes.\<close>

definition timedelta_days :: "datetime \<Rightarrow> datetime \<Rightarrow> int" where
  "timedelta_days b a = toordinal b - toordinal a"

text \<open>
  \<^verbatim>\<open>datetime.strptime(s, '%Y-%b-%d')\<close> in the C locale: four digits, a dash, a month
  abbreviation matched without regard to case, a dash, and a day of one or two digits
  (\<^verbatim>\<open>3[0-1]|[1-2]\d|0[1-9]|[1-9]| [1-9]\<close>); the whole string must match and the
  date must exist.
\<close>

definition digit_of :: "char \<Rightarrow> int option" where
  "digit_of c = map_option int (map_of (zip ''0123456789'' [0 ..< 10]) c)"

definition lower_ascii :: "char \<Rightarrow> char" where
  "lower_ascii c =
     (case map_of (zip ''ABCDEFGHIJKLMNOPQRSTUVWXYZ'' ''abcdefghijklmnopqrstuvwxyz'') c of
        None \<Rightarrow> c | Some l \<Rightarrow> l)"

definition month_abbr :: "string \<Rightarrow> int option" where
  "month_abbr s = map_of
     [(''jan'', 1), (''feb'', 2), (''mar'', 3), (''apr'', 4), (''may'', 5), (''jun'', 6),
      (''jul'', 7), (''aug'', 8), (''sep'', 9), (''oct'', 10), (''nov'', 11), (''dec'', 12)]
     (map lower_ascii s)"

definition year_digits :: "string \<Rightarrow> int option" where
  "year_digits s =
     (case map digit_of s of
        [Some a, Some b, Some c, Some d] \<Rightarrow> Some (1000 * a + 100 * b + 10 * c + d)
      | _ \<Rightarrow> None)"

definition day_digits :: "string \<Rightarrow> int option" where
  "day_digits s =
     (case s of
        [c] \<Rightarrow> (case digit_of c of Some d \<Rightarrow> (if 1 \<le> d then Some d else None) | None \<Rightarrow> None)
      | [c1, c2] \<Rightarrow>
          (case (digit_of c1, digit_of c2) of
             (Some t, Some u) \<Rightarrow>
               (if 1 \<le> 10 * t + u \<and> 10 * t + u \<le> 31 then Some (10 * t + u) else None)
           | (None, Some u) \<Rightarrow> (if c1 = CHR '' '' \<and> 1 \<le> u then Some u else None)
           | _ \<Rightarrow> None)
      | _ \<Rightarrow> None)"

definition strptime :: "string \<Rightarrow> py_error + datetime" where
  "strptime s =
     (if 10 \<le> length s \<and> s ! 4 = CHR ''-'' \<and> s ! 8 = CHR ''-''
      then (case (year_digits (take 4 s), month_abbr (take 3 (drop 5 s)), day_digits (drop 9 s)) of
              (Some yr, Some mo, Some dy) \<Rightarrow> mk_datetime yr mo dy
            | _ \<Rightarrow> Inl ValueError)
      else Inl ValueError)"

subsection \<open>The query parameters (lines 21 to 28)\<close>

definition obj_id :: string where
  "obj_id = ''C/2025 N1''"

definition planet_ids :: "(string \<times> string) list" where
  "planet_ids = [(''Earth'', ''399''), (''Mars'', ''499''), (''Jupiter'', ''599'')]"

definition start_date :: string where
  "start_date = ''2025-Nov-01''"

definition stop_date :: string where
  "stop_date = ''2026-Mar-28''"

definition step_size :: string where
  "step_size = ''2d''"

record epochs =
  ep_start :: string
  ep_stop :: string
  ep_step :: string

definition query_epochs :: epochs where
  "query_epochs = \<lparr>ep_start = start_date, ep_stop = stop_date, ep_step = step_size\<rparr>"

definition location :: string where
  "location = ''500@0''"

subsection \<open>The ephemeris service and the fetch (lines 30 to 47)\<close>

text \<open>
  A vector table has one row per epoch; a row carries its epoch and the three coordinates,
  each of which may be masked (\<open>None\<close>). The service is a parameter of the model: body
  identifier, observer location and epochs in, a table or an exception out.
\<close>

record vec_row =
  datetime_jd :: real
  vx :: "real option"
  vy :: "real option"
  vz :: "real option"

type_synonym table = "vec_row list"

type_synonym horizons = "string \<Rightarrow> string \<Rightarrow> epochs \<Rightarrow> py_error + table"

text \<open>\<^verbatim>\<open>column.data.filled(v)\<close>: the masked entries become \<open>v\<close>.\<close>

definition filled :: "real \<Rightarrow> real option list \<Rightarrow> real list" where
  "filled v col = map (\<lambda>m. case m of None \<Rightarrow> v | Some u \<Rightarrow> u) col"

definition sentinel :: real where
  "sentinel = 10000000000"

record coords =
  cx :: "real list"
  cy :: "real list"
  cz :: "real list"

record fetched =
  comet_x :: "real list"
  comet_y :: "real list"
  comet_z :: "real list"
  planet_positions :: "(string \<times> coords) list"

text \<open>The loop over \<^verbatim>\<open>planet_ids.items()\<close>; an exception of a query ends it.\<close>

fun fetch_planets ::
  "horizons \<Rightarrow> (string \<times> string) list \<Rightarrow> (string \<times> coords) list \<Rightarrow> py_error + (string \<times> coords) list"
where
  "fetch_planets srv [] pp = Inr pp"
| "fetch_planets srv ((planet, pid) # rest) pp =
     (case srv pid location query_epochs of
        Inl e \<Rightarrow> Inl e
      | Inr planet_vecs \<Rightarrow>
          fetch_planets srv rest
            (dict_set pp planet
               \<lparr>cx = filled sentinel (map vx planet_vecs),
                cy = filled sentinel (map vy planet_vecs),
                cz = filled sentinel (map vz planet_vecs)\<rparr>))"

definition fetch :: "horizons \<Rightarrow> py_error + fetched" where
  "fetch srv =
     (case srv obj_id location query_epochs of
        Inl e \<Rightarrow> Inl e
      | Inr vecs \<Rightarrow>
          (case fetch_planets srv planet_ids [] of
             Inl e \<Rightarrow> Inl e
           | Inr pp \<Rightarrow>
               Inr \<lparr>comet_x = filled sentinel (map vx vecs),
                    comet_y = filled sentinel (map vy vecs),
                    comet_z = filled sentinel (map vz vecs),
                    planet_positions = pp\<rparr>))"

subsection \<open>The index of the highlighted date (lines 49 to 52)\<close>

text \<open>
  \<^verbatim>\<open>int(days / 2)\<close>: a true division followed by \<^verbatim>\<open>int\<close>, which drops the
  fractional part (rounds toward zero). A difference of two dates is below \<open>2^22\<close> in
  magnitude, so the halves are exact in double precision and the quotient is the real one.
\<close>

definition py_int :: "real \<Rightarrow> int" where
  "py_int r = (if r < 0 then \<lceil>r\<rceil> else \<lfloor>r\<rfloor>)"

definition date_index :: "datetime \<Rightarrow> datetime \<Rightarrow> int" where
  "date_index start target = py_int (real_of_int (timedelta_days target start) / 2)"

definition nov1_date :: "py_error + datetime" where
  "nov1_date = mk_datetime 2025 11 1"

definition start_dt :: "py_error + datetime" where
  "start_dt = strptime start_date"

definition nov1_index :: "py_error + int" where
  "nov1_index =
     (case nov1_date of
        Inl e \<Rightarrow> Inl e
      | Inr target \<Rightarrow>
          (case start_dt of Inl e \<Rightarrow> Inl e | Inr start \<Rightarrow> Inr (date_index start target)))"

subsection \<open>The static scene (lines 58 to 70)\<close>


text \<open>
  The orbit coordinates are computed in double precision. The arithmetic is a parameter of
  the model: \<open>rnd\<close> rounds the exact result of an addition, a subtraction, a multiplication,
  a division or a square root, and the value of a decimal literal, to the double the
  machine keeps; \<open>f_cos\<close> and \<open>f_sin\<close> are the library's cosine and sine on doubles and \<open>f_pi\<close>
  is \<^verbatim>\<open>np.pi\<close>. Exact arithmetic is one instance.
\<close>

record float_ops =
  rnd :: "real \<Rightarrow> real"
  f_cos :: "real \<Rightarrow> real"
  f_sin :: "real \<Rightarrow> real"
  f_pi :: real

definition exact :: float_ops where
  "exact = \<lparr>rnd = (\<lambda>v. v), f_cos = cos, f_sin = sin, f_pi = pi\<rparr>"







subsection \<open>The animated artists (lines 72 to 81)\<close>

text \<open>
  A three-dimensional line artist keeps the data given to \<^verbatim>\<open>set_data\<close> and the
  vertices built by \<^verbatim>\<open>set_3d_properties\<close> from that data and the given heights.
  The script holds five such artists; \<open>artist\<close> is their identity, and the dictionary
  \<^verbatim>\<open>planet_markers\<close> maps the planet names to three of them.
\<close>

record line3d =
  xdata :: "real list"
  ydata :: "real list"
  verts3d :: "real list \<times> real list \<times> real list"

definition set_data :: "line3d \<Rightarrow> real list \<Rightarrow> real list \<Rightarrow> line3d" where
  "set_data l xs ys = l\<lparr>xdata := xs, ydata := ys\<rparr>"

definition set_3d_properties :: "line3d \<Rightarrow> real list \<Rightarrow> line3d" where
  "set_3d_properties l zs = l\<lparr>verts3d := (xdata l, ydata l, zs)\<rparr>"

datatype artist = Line | Comet_marker | Earth_marker | Mars_marker | Jupiter_marker

definition planet_markers :: "(string \<times> artist) list" where
  "planet_markers =
     [(''Earth'', Earth_marker), (''Mars'', Mars_marker), (''Jupiter'', Jupiter_marker)]"

text \<open>\<^verbatim>\<open>ax.plot([], [], [])\<close>: an artist without points.\<close>

definition empty_line :: line3d where
  "empty_line = \<lparr>xdata = [], ydata = [], verts3d = ([], [], [])\<rparr>"

subsection \<open>The state of the script and the callback \<^verbatim>\<open>update\<close> (lines 102 to 116)\<close>

text \<open>
  The module-level state the callback can reach: the fetched arrays and the artists. The
  callback returns its result, or the exception it raised, together with the state it
  leaves behind; what it changed before an exception stays changed.
\<close>

record world =
  data :: fetched
  artists :: "artist \<Rightarrow> line3d"

definition startup :: "fetched \<Rightarrow> world" where
  "startup d = \<lparr>data = d, artists = (\<lambda>_. empty_line)\<rparr>"

definition modify :: "artist \<Rightarrow> (line3d \<Rightarrow> line3d) \<Rightarrow> world \<Rightarrow> world" where
  "modify a f w = w\<lparr>artists := (artists w)(a := f (artists w a))\<rparr>"

text \<open>The loop over \<^verbatim>\<open>planet_markers.items()\<close>, with the list \<^verbatim>\<open>artists\<close> so far.\<close>

fun update_planets ::
  "int \<Rightarrow> (string \<times> artist) list \<Rightarrow> artist list \<Rightarrow> world \<Rightarrow> (py_error + artist list) \<times> world"
where
  "update_planets frame [] acc w = (Inr acc, w)"
| "update_planets frame ((planet, marker) # rest) acc w =
     (case dict_get (planet_positions (data w)) planet of
        Inl e \<Rightarrow> (Inl e, w)
      | Inr c \<Rightarrow>
          (case getitem (cx c) frame of
             Inl e \<Rightarrow> (Inl e, w)
           | Inr px \<Rightarrow>
               (case getitem (cy c) frame of
                  Inl e \<Rightarrow> (Inl e, w)
                | Inr py \<Rightarrow>
                    (let w1 = modify marker (\<lambda>l. set_data l [px] [py]) w
                     in case getitem (cz c) frame of
                          Inl e \<Rightarrow> (Inl e, w1)
                        | Inr pz \<Rightarrow>
                            update_planets frame rest (acc @ [marker])
                              (modify marker (\<lambda>l. set_3d_properties l [pz]) w1)))))"

definition update :: "int \<Rightarrow> world \<Rightarrow> (py_error + artist list) \<times> world" where
  "update frame w =
     (let d = data w;
          w1 = modify Line
                 (\<lambda>l. set_data l (slice_upto (comet_x d) (frame + 1))
                                 (slice_upto (comet_y d) (frame + 1))) w;
          w2 = modify Line (\<lambda>l. set_3d_properties l (slice_upto (comet_z d) (frame + 1))) w1
      in case getitem (comet_x d) frame of
           Inl e \<Rightarrow> (Inl e, w2)
         | Inr sx \<Rightarrow>
             (case getitem (comet_y d) frame of
                Inl e \<Rightarrow> (Inl e, w2)
              | Inr sy \<Rightarrow>
                  (let w3 = modify Comet_marker (\<lambda>l. set_data l [sx] [sy]) w2
                   in case getitem (comet_z d) frame of
                        Inl e \<Rightarrow> (Inl e, w3)
                      | Inr sz \<Rightarrow>
                          update_planets frame planet_markers [Line, Comet_marker]
                            (modify Comet_marker (\<lambda>l. set_3d_properties l [sz]) w3))))"

subsection \<open>The animation driver (line 119 and the save of line 131)\<close>

text \<open>
  \<^verbatim>\<open>FuncAnimation(fig, update, frames=len(x))\<close> iterates \<^verbatim>\<open>range(len(x))\<close>.
  Saving draws the first frame of that sequence once to initialise the figure, when there
  is one, and then every frame in order; an exception of the callback ends the run.
\<close>

definition frame_seq :: "world \<Rightarrow> int list" where
  "frame_seq w = map int [0 ..< length (comet_x (data w))]"

fun draw_frames :: "int list \<Rightarrow> world \<Rightarrow> (py_error + unit) \<times> world" where
  "draw_frames [] w = (Inr (), w)"
| "draw_frames (frame # rest) w =
     (case update frame w of
        (Inl e, w') \<Rightarrow> (Inl e, w')
      | (Inr drawn, w') \<Rightarrow> draw_frames rest w')"

definition saved_frames :: "world \<Rightarrow> int list" where
  "saved_frames w = take 1 (frame_seq w) @ frame_seq w"

definition ani_save :: "world \<Rightarrow> (py_error + unit) \<times> world" where
  "ani_save w = draw_frames (saved_frames w) w"

subsection \<open>The console output (lines 146 to 148)\<close>

text \<open>
  The two prints do arithmetic on the samples, so the element type of an array matters. The
  table parser replaces a masked entry by \<^verbatim>\<open>0\<close> before it infers the type of a column,
  and the service prints every coordinate in scientific notation: a column whose entries are
  all masked is read as 64-bit integers, any other column as doubles. Filling keeps the
  type, so in an integer column the sentinel is the integer \<open>10^10\<close>.
\<close>

datatype dtype = Int64 | Float64

definition column_dtype :: "real option list \<Rightarrow> dtype" where
  "column_dtype col = (if list_all (\<lambda>m. m = None) col then Int64 else Float64)"

datatype np_num = I64 int | F64 real

fun value_of :: "np_num \<Rightarrow> real" where
  "value_of (I64 v) = real_of_int v"
| "value_of (F64 r) = r"

text \<open>
  Signed 64-bit arithmetic wraps around.
\<close>

definition wrap64 :: "int \<Rightarrow> int" where
  "wrap64 v = (v + 2 ^ 63) mod 2 ^ 64 - 2 ^ 63"

text \<open>
  The array a column becomes, with its element type; its values are those of \<open>filled\<close>.
\<close>

definition filled_typed :: "real \<Rightarrow> real option list \<Rightarrow> np_num list" where
  "filled_typed v col =
     (case column_dtype col of
        Int64 \<Rightarrow> map (\<lambda>r. I64 \<lfloor>r\<rfloor>) (filled v col)
      | Float64 \<Rightarrow> map F64 (filled v col))"

text \<open>
  \<^verbatim>\<open>v**2\<close>, \<^verbatim>\<open>a + b\<close> and \<^verbatim>\<open>np.sqrt\<close> on scalars: integers stay integers and wrap, a mixed
  sum converts the integer to a double first, and the square root of a negative number is
  not a number (\<open>None\<close>).
\<close>

fun np_square :: "float_ops \<Rightarrow> np_num \<Rightarrow> np_num" where
  "np_square ops (I64 v) = I64 (wrap64 (v * v))"
| "np_square ops (F64 r) = F64 (rnd ops (r * r))"

fun np_add :: "float_ops \<Rightarrow> np_num \<Rightarrow> np_num \<Rightarrow> np_num" where
  "np_add ops (I64 a) (I64 b) = I64 (wrap64 (a + b))"
| "np_add ops (I64 a) (F64 r) = F64 (rnd ops (rnd ops (real_of_int a) + r))"
| "np_add ops (F64 r) (I64 b) = F64 (rnd ops (r + rnd ops (real_of_int b)))"
| "np_add ops (F64 r) (F64 s) = F64 (rnd ops (r + s))"

fun np_sqrt :: "float_ops \<Rightarrow> np_num \<Rightarrow> real option" where
  "np_sqrt ops (I64 v) =
     (if v < 0 then None else Some (rnd ops (sqrt (rnd ops (real_of_int v)))))"
| "np_sqrt ops (F64 r) = (if r < 0 then None else Some (rnd ops (sqrt r)))"

text \<open>
  \<^verbatim>\<open>f"{v:.3f}"\<close>: the value rounded to three decimals, a tie going to the even digit.
\<close>

definition fmt3 :: "real \<Rightarrow> real" where
  "fmt3 v =
     (let q = v * 1000; f = \<lfloor>q\<rfloor>
      in (if q - real_of_int f < 1 / 2 then real_of_int f
          else if 1 / 2 < q - real_of_int f then real_of_int f + 1
          else if even f then real_of_int f else real_of_int f + 1) / 1000)"

text \<open>
  What the two prints show for the comet's table and the index: the three formatted
  coordinates and the distance, or the exception of the first read that fails.
\<close>

definition console_output ::
  "float_ops \<Rightarrow> table \<Rightarrow> int \<Rightarrow> py_error + (real \<times> real \<times> real) \<times> real option"
where
  "console_output ops vecs idx =
     (case getitem (filled_typed sentinel (map vx vecs)) idx of
        Inl e \<Rightarrow> Inl e
      | Inr sx \<Rightarrow>
          (case getitem (filled_typed sentinel (map vy vecs)) idx of
             Inl e \<Rightarrow> Inl e
           | Inr sy \<Rightarrow>
               (case getitem (filled_typed sentinel (map vz vecs)) idx of
                  Inl e \<Rightarrow> Inl e
                | Inr sz \<Rightarrow>
                    Inr ((fmt3 (value_of sx), fmt3 (value_of sy), fmt3 (value_of sz)),
                         np_sqrt ops
                           (np_add ops (np_add ops (np_square ops sx) (np_square ops sy))
                              (np_square ops sz))))))"

subsection \<open>Vocabulary of the properties\<close>

text \<open>The three arrays the script builds from one table.\<close>

abbreviation arrays_of :: "table \<Rightarrow> coords" where
  "arrays_of t \<equiv>
     \<lparr>cx = filled sentinel (map vx t), cy = filled sentinel (map vy t),
      cz = filled sentinel (map vz t)\<rparr>"

text \<open>An artist that shows the single point \<open>(a, b, c)\<close>.\<close>

definition point :: "real \<Rightarrow> real \<Rightarrow> real \<Rightarrow> line3d" where
  "point a b c = \<lparr>xdata = [a], ydata = [b], verts3d = ([a], [b], [c])\<rparr>"

text \<open>A body has a sample at index \<open>k\<close>; every planet of the fetched data has one.\<close>

definition has_sample :: "coords \<Rightarrow> int \<Rightarrow> bool" where
  "has_sample c k =
     (0 \<le> k \<and> k < int (length (cx c)) \<and> k < int (length (cy c)) \<and> k < int (length (cz c)))"

definition planets_sampled :: "fetched \<Rightarrow> int \<Rightarrow> bool" where
  "planets_sampled d k = list_all (\<lambda>(planet, c). has_sample c k) (planet_positions d)"

text \<open>
  The invariant of the data model: every sequence of every body has the length of the
  comet's \<open>x\<close> array.
\<close>

definition aligned :: "fetched \<Rightarrow> bool" where
  "aligned d =
     (length (comet_y d) = length (comet_x d) \<and> length (comet_z d) = length (comet_x d) \<and>
      list_all
        (\<lambda>(planet, c). length (cx c) = length (comet_x d) \<and> length (cy c) = length (comet_x d) \<and>
                        length (cz c) = length (comet_x d))
        (planet_positions d))"

text \<open>
  What the script relies on from the service: the epochs of the rows it answers with are
  those of the requested range, whatever the body.
\<close>

definition epochs_by_range :: "horizons \<Rightarrow> bool" where
  "epochs_by_range srv =
     (\<forall>a b loc ep ta tb.
        srv a loc ep = Inr ta \<and> srv b loc ep = Inr tb \<longrightarrow>
        map datetime_jd ta = map datetime_jd tb)"

text \<open>
  A masked column and the array made from it: same length, the sentinel where the entry is
  masked, the entry itself elsewhere.
\<close>

definition sentinel_filled :: "real option list \<Rightarrow> real list \<Rightarrow> bool" where
  "sentinel_filled col arr =
     list_all2 (\<lambda>m v. v = (case m of None \<Rightarrow> 10000000000 | Some u \<Rightarrow> u)) col arr"

definition passed_through :: "table \<Rightarrow> coords \<Rightarrow> bool" where
  "passed_through t c =
     (sentinel_filled (map vx t) (cx c) \<and> sentinel_filled (map vy t) (cy c) \<and>
      sentinel_filled (map vz t) (cz c))"



subsection \<open>A small service for concrete runs\<close>

text \<open>
  Two epochs for every body; the comet's second height and its first \<open>y\<close> are masked, and
  so are two entries of every planet.
\<close>

definition two_epochs :: horizons where
  "two_epochs bid loc ep =
     (if bid = obj_id
      then Inr [\<lparr>datetime_jd = 2460980.5, vx = Some 1, vy = None, vz = Some 3\<rparr>,
                \<lparr>datetime_jd = 2460982.5, vx = Some 4, vy = Some 5, vz = None\<rparr>]
      else Inr [\<lparr>datetime_jd = 2460980.5, vx = Some 7, vy = Some 8, vz = None\<rparr>,
                \<lparr>datetime_jd = 2460982.5, vx = None, vy = Some 9, vz = Some 2\<rparr>])"

definition two_epochs_data :: fetched where
  "two_epochs_data =
     \<lparr>comet_x = [1, 4], comet_y = [10000000000, 5], comet_z = [3, 10000000000],
      planet_positions =
        [(''Earth'', \<lparr>cx = [7, 10000000000], cy = [8, 9], cz = [10000000000, 2]\<rparr>),
         (''Mars'', \<lparr>cx = [7, 10000000000], cy = [8, 9], cz = [10000000000, 2]\<rparr>),
         (''Jupiter'', \<lparr>cx = [7, 10000000000], cy = [8, 9], cz = [10000000000, 2]\<rparr>)]\<rparr>"

section \<open>Auxiliary facts\<close>

lemma getitem_nth: "0 \<le> k \<Longrightarrow> k < int (length a) \<Longrightarrow> getitem a k = Inr (a ! nat k)"
  by (simp add: getitem_def)

lemma slice_upto_take: "0 \<le> k \<Longrightarrow> slice_upto a (k + 1) = take (nat k + 1) a"
  by (cases "k + 1 \<le> int (length a)") (simp_all add: slice_upto_def min_def nat_add_distrib)

lemma length_filled: "length (filled v col) = length col"
  by (simp add: filled_def)

lemma nth_filled:
  "i < length col \<Longrightarrow> filled v col ! i = (case col ! i of None \<Rightarrow> v | Some u \<Rightarrow> u)"
  by (simp add: filled_def)

lemma line3d_all_set:
  "l\<lparr>xdata := a, ydata := b, verts3d := c\<rparr> = \<lparr>xdata = a, ydata = b, verts3d = c\<rparr>"
  by (cases l) simp

text \<open>The planet loop on the three identifiers of the script, unrolled.\<close>

lemma fetch_planets_ids:
  "fetch_planets srv planet_ids [] =
     (case srv ''399'' location query_epochs of
        Inl e \<Rightarrow> Inl e
      | Inr te \<Rightarrow>
          (case srv ''499'' location query_epochs of
             Inl e \<Rightarrow> Inl e
           | Inr tm \<Rightarrow>
               (case srv ''599'' location query_epochs of
                  Inl e \<Rightarrow> Inl e
                | Inr tj \<Rightarrow>
                    Inr [(''Earth'', arrays_of te), (''Mars'', arrays_of tm),
                         (''Jupiter'', arrays_of tj)])))"
  by (simp add: planet_ids_def split: sum.splits)

lemma fetch_shape:
  assumes "fetch srv = Inr d"
  shows "\<exists>tc te tm tj.
    srv obj_id location query_epochs = Inr tc \<and>
    srv ''399'' location query_epochs = Inr te \<and>
    srv ''499'' location query_epochs = Inr tm \<and>
    srv ''599'' location query_epochs = Inr tj \<and>
    d = \<lparr>comet_x = filled sentinel (map vx tc), comet_y = filled sentinel (map vy tc),
          comet_z = filled sentinel (map vz tc),
          planet_positions = [(''Earth'', arrays_of te), (''Mars'', arrays_of tm),
                              (''Jupiter'', arrays_of tj)]\<rparr>"
  using assms unfolding fetch_def fetch_planets_ids
  by (auto split: sum.splits)

lemma fetch_two_epochs: "fetch two_epochs = Inr two_epochs_data"
  by (simp add: fetch_def fetch_planets_ids two_epochs_def two_epochs_data_def obj_id_def
        filled_def sentinel_def)

text \<open>The planet loop writes to the planet markers only, and never to the data.\<close>

lemma update_planets_data: "data (snd (update_planets k ms acc w)) = data w"
  by (induction ms arbitrary: acc w) (auto simp: modify_def Let_def split: sum.splits)

lemma update_planets_other:
  "a \<notin> snd ` set ms \<Longrightarrow> artists (snd (update_planets k ms acc w)) a = artists w a"
  by (induction ms arbitrary: acc w) (auto simp: modify_def Let_def split: sum.splits)

lemma update_data: "data (snd (update k w)) = data w"
  by (simp add: update_def Let_def update_planets_data modify_def split: sum.splits)

text \<open>The result of a call, list or exception, depends on the data and the frame only.\<close>

lemma modify_data: "data (modify a f w) = data w"
  by (simp add: modify_def)

lemma update_planets_outcome:
  "data w' = data w \<Longrightarrow>
   fst (update_planets k ms acc w') = fst (update_planets k ms acc w)"
proof (induction ms arbitrary: acc w w')
  case Nil
  then show ?case by simp
next
  case (Cons m ms)
  obtain planet marker where m: "m = (planet, marker)"
    by (cases m)
  show ?case
    unfolding m update_planets.simps Let_def Cons.prems
    using Cons.prems by (auto split: sum.splits intro!: Cons.IH simp: modify_data)
qed

lemma update_outcome:
  assumes "data w' = data w"
  shows "fst (update k w') = fst (update k w)"
  unfolding update_def Let_def assms
  using assms by (auto split: sum.splits intro!: update_planets_outcome simp: modify_data)

text \<open>The trajectory line is written before any sample is read.\<close>

lemma update_line:
  assumes "0 \<le> k"
  shows "artists (snd (update k w)) Line =
           \<lparr>xdata = take (nat k + 1) (comet_x (data w)),
            ydata = take (nat k + 1) (comet_y (data w)),
            verts3d = (take (nat k + 1) (comet_x (data w)), take (nat k + 1) (comet_y (data w)),
                       take (nat k + 1) (comet_z (data w)))\<rparr>"
  using assms
  by (simp add: update_def Let_def update_planets_other planet_markers_def modify_def
        set_data_def set_3d_properties_def slice_upto_take line3d_all_set split: sum.splits)

text \<open>The whole effect of a call whose frame has a sample for every body.\<close>

lemma update_in_range:
  assumes f: "fetch srv = Inr (data w)"
    and k: "0 \<le> k" "k < int (length (comet_x (data w)))"
    and p: "planets_sampled (data w) k"
  obtains ce cm cj where
    "planet_positions (data w) = [(''Earth'', ce), (''Mars'', cm), (''Jupiter'', cj)]"
    "update k w =
       (Inr [Line, Comet_marker, Earth_marker, Mars_marker, Jupiter_marker],
        w\<lparr>artists := (artists w)
             (Line := \<lparr>xdata = take (nat k + 1) (comet_x (data w)),
                       ydata = take (nat k + 1) (comet_y (data w)),
                       verts3d = (take (nat k + 1) (comet_x (data w)),
                                  take (nat k + 1) (comet_y (data w)),
                                  take (nat k + 1) (comet_z (data w)))\<rparr>,
              Comet_marker := point (comet_x (data w) ! nat k) (comet_y (data w) ! nat k)
                                (comet_z (data w) ! nat k),
              Earth_marker := point (cx ce ! nat k) (cy ce ! nat k) (cz ce ! nat k),
              Mars_marker := point (cx cm ! nat k) (cy cm ! nat k) (cz cm ! nat k),
              Jupiter_marker := point (cx cj ! nat k) (cy cj ! nat k) (cz cj ! nat k))\<rparr>)"
proof -
  from fetch_shape [OF f] obtain tc te tm tj :: table where
    d: "data w = \<lparr>comet_x = filled sentinel (map vx tc), comet_y = filled sentinel (map vy tc),
          comet_z = filled sentinel (map vz tc),
          planet_positions = [(''Earth'', arrays_of te), (''Mars'', arrays_of tm),
                              (''Jupiter'', arrays_of tj)]\<rparr>"
    by blast
  from k d have kc: "k < int (length tc)"
    by (simp add: length_filled)
  from p d have kp: "k < int (length te)" "k < int (length tm)" "k < int (length tj)"
    by (simp_all add: planets_sampled_def has_sample_def length_filled)
  have pp: "planet_positions (data w) =
              [(''Earth'', arrays_of te), (''Mars'', arrays_of tm), (''Jupiter'', arrays_of tj)]"
    by (simp add: d)
  have gc: "getitem (comet_x (data w)) k = Inr (comet_x (data w) ! nat k)"
    "getitem (comet_y (data w)) k = Inr (comet_y (data w) ! nat k)"
    "getitem (comet_z (data w)) k = Inr (comet_z (data w) ! nat k)"
    using k kc by (simp_all add: getitem_nth d length_filled)
  have gp: "\<And>t f. k < int (length t) \<Longrightarrow>
      getitem (filled sentinel (map f t)) k = Inr (filled sentinel (map f t) ! nat k)"
    using k by (simp add: getitem_nth length_filled)
  have "update k w =
       (Inr [Line, Comet_marker, Earth_marker, Mars_marker, Jupiter_marker],
        w\<lparr>artists := (artists w)
             (Line := \<lparr>xdata = take (nat k + 1) (comet_x (data w)),
                       ydata = take (nat k + 1) (comet_y (data w)),
                       verts3d = (take (nat k + 1) (comet_x (data w)),
                                  take (nat k + 1) (comet_y (data w)),
                                  take (nat k + 1) (comet_z (data w)))\<rparr>,
              Comet_marker := point (comet_x (data w) ! nat k) (comet_y (data w) ! nat k)
                                (comet_z (data w) ! nat k),
              Earth_marker := point (cx (arrays_of te) ! nat k) (cy (arrays_of te) ! nat k)
                                (cz (arrays_of te) ! nat k),
              Mars_marker := point (cx (arrays_of tm) ! nat k) (cy (arrays_of tm) ! nat k)
                               (cz (arrays_of tm) ! nat k),
              Jupiter_marker := point (cx (arrays_of tj) ! nat k) (cy (arrays_of tj) ! nat k)
                                  (cz (arrays_of tj) ! nat k))\<rparr>)"
    unfolding update_def Let_def gc planet_markers_def
    using k kp
    by (simp add: pp gp modify_def set_data_def set_3d_properties_def slice_upto_take
          line3d_all_set point_def)
  with pp show thesis by (rule that)
qed

text \<open>Halving a day count: \<^verbatim>\<open>int\<close> of the quotient, its floor and its ceiling.\<close>

lemma py_int_half: "py_int (real_of_int n / 2) = (if n < 0 then - ((- n) div 2) else n div 2)"
proof -
  have c: "\<lceil>real_of_int n / 2\<rceil> = - ((- n) div 2)"
    unfolding ceiling_def
    by (metis floor_divide_of_int_eq minus_divide_left of_int_minus of_int_numeral)
  have f: "\<lfloor>real_of_int n / 2\<rfloor> = n div 2"
    by (metis floor_divide_of_int_eq of_int_numeral)
  show ?thesis by (simp add: py_int_def c f)
qed

lemma floor_half: "\<lfloor>real_of_int n / 2\<rfloor> = n div 2"
  by (metis floor_divide_of_int_eq of_int_numeral)

lemma ceiling_half: "\<lceil>real_of_int n / 2\<rceil> = - ((- n) div 2)"
  unfolding ceiling_def
  by (metis floor_divide_of_int_eq minus_divide_left of_int_minus of_int_numeral)

lemma start_dt_value: "start_dt = Inr \<lparr>year = 2025, month = 11, day = 1\<rparr>"
  by code_simp

lemma toordinal_ymd:
  "toordinal \<lparr>year = yr, month = mo, day = dy\<rparr> =
     days_before_year yr + days_before_month yr mo + dy"
  by (simp add: toordinal_def)

text \<open>What \<^verbatim>\<open>filled\<close> does, entry by entry.\<close>

lemma sentinel_filled_filled: "sentinel_filled col (filled sentinel col)"
  by (simp add: sentinel_filled_def filled_def sentinel_def list_all2_map2 list_all2_same)

lemma sentinel_filled_nth:
  "sentinel_filled col arr \<longleftrightarrow>
     length arr = length col \<and>
     (\<forall>i < length col. arr ! i = (case col ! i of None \<Rightarrow> 10000000000 | Some u \<Rightarrow> u))"
  by (auto simp: sentinel_filled_def list_all2_conv_all_nth)

lemma passed_through_arrays: "passed_through t (arrays_of t)"
  by (simp add: passed_through_def sentinel_filled_filled)

lemma epochs_by_range_two_epochs: "epochs_by_range two_epochs"
  by (auto simp: epochs_by_range_def two_epochs_def split: if_splits)

lemma aligned_two_epochs: "aligned two_epochs_data"
  by (simp add: aligned_def two_epochs_data_def)

text \<open>The state right after a fetch from the small service.\<close>

lemma startup_two_epochs:
  "data (startup two_epochs_data) = two_epochs_data"
  by (simp add: startup_def)

lemma fetch_startup_two_epochs: "fetch two_epochs = Inr (data (startup two_epochs_data))"
  by (simp add: fetch_two_epochs startup_def)

lemma two_epochs_sampled: "planets_sampled two_epochs_data 1"
  by (simp add: planets_sampled_def has_sample_def two_epochs_data_def)

text \<open>
  The comet marker is written before any planet is read; with every sequence of the common
  length no read of the callback is out of range, in any state that holds the same data.
\<close>

lemma update_comet_marker:
  assumes f: "fetch srv = Inr (data w)"
    and k: "0 \<le> k" "k < int (length (comet_x (data w)))"
  shows "artists (snd (update k w)) Comet_marker =
           point (comet_x (data w) ! nat k) (comet_y (data w) ! nat k) (comet_z (data w) ! nat k)"
proof -
  from fetch_shape [OF f] obtain tc :: table where
    "comet_x (data w) = filled sentinel (map vx tc)"
    "comet_y (data w) = filled sentinel (map vy tc)"
    "comet_z (data w) = filled sentinel (map vz tc)"
    by auto
  with k have gc: "getitem (comet_x (data w)) k = Inr (comet_x (data w) ! nat k)"
    "getitem (comet_y (data w)) k = Inr (comet_y (data w) ! nat k)"
    "getitem (comet_z (data w)) k = Inr (comet_z (data w) ! nat k)"
    by (simp_all add: getitem_nth length_filled)
  have "Comet_marker \<notin> snd ` set planet_markers"
    by (simp add: planet_markers_def)
  then show ?thesis
    unfolding update_def Let_def gc
    by (simp add: update_planets_other modify_def set_data_def set_3d_properties_def
          line3d_all_set point_def)
qed

lemma aligned_sampled:
  "aligned d \<Longrightarrow> 0 \<le> k \<Longrightarrow> k < int (length (comet_x d)) \<Longrightarrow> planets_sampled d k"
  by (auto simp: aligned_def planets_sampled_def has_sample_def list_all_iff)

lemma update_ok:
  assumes "fetch srv = Inr (data w)" and "aligned (data w)"
    and "0 \<le> k" and "k < int (length (comet_x (data w)))"
  shows "fst (update k w) = Inr [Line, Comet_marker, Earth_marker, Mars_marker, Jupiter_marker]"
proof -
  from assms have "planets_sampled (data w) k"
    by (simp add: aligned_sampled)
  with assms obtain w' where
    "update k w = (Inr [Line, Comet_marker, Earth_marker, Mars_marker, Jupiter_marker], w')"
    by (auto elim: update_in_range)
  then show ?thesis by simp
qed

lemma draw_frames_ok:
  assumes "fetch srv = Inr d" and "aligned d"
  shows "data w = d \<Longrightarrow> \<forall>f \<in> set fs. 0 \<le> f \<and> f < int (length (comet_x d)) \<Longrightarrow>
         fst (draw_frames fs w) = Inr ()"
proof (induction fs arbitrary: w)
  case Nil
  then show ?case by simp
next
  case (Cons f fs)
  from Cons.prems assms
  have ok: "fst (update f w) = Inr [Line, Comet_marker, Earth_marker, Mars_marker, Jupiter_marker]"
    by (simp add: update_ok)
  have "data (snd (update f w)) = d"
    using Cons.prems(1) by (simp add: update_data)
  with Cons.IH Cons.prems(2) have "fst (draw_frames fs (snd (update f w))) = Inr ()"
    by simp
  with ok show ?case
    by (cases "update f w") simp
qed

lemma saved_frames_range:
  assumes "f \<in> set (saved_frames w)"
  shows "0 \<le> f \<and> f < int (length (comet_x (data w)))"
proof -
  from assms have "f \<in> set (frame_seq w)"
    using set_take_subset [of 1 "frame_seq w"] by (auto simp: saved_frames_def)
  then show ?thesis
    by (auto simp: frame_seq_def)
qed

text \<open>
  The index as an integer quotient, and the day counts of four dates.
\<close>

lemma date_index_div:
  "date_index s t =
     (if 0 \<le> timedelta_days t s then timedelta_days t s div 2
      else - ((- timedelta_days t s) div 2))"
  by (simp add: date_index_def py_int_half)

lemma days_from_start:
  "timedelta_days \<lparr>year = 2025, month = 11, day = 4\<rparr> \<lparr>year = 2025, month = 11, day = 1\<rparr> = 3"
  "timedelta_days \<lparr>year = 2027, month = 1, day = 1\<rparr> \<lparr>year = 2025, month = 11, day = 1\<rparr> = 426"
  "timedelta_days \<lparr>year = 2025, month = 10, day = 29\<rparr> \<lparr>year = 2025, month = 11, day = 1\<rparr> = - 3"
  "timedelta_days \<lparr>year = 2025, month = 10, day = 31\<rparr> \<lparr>year = 2025, month = 11, day = 1\<rparr> = - 1"
  by (simp_all add: timedelta_days_def toordinal_ymd days_before_year_def days_before_month_def
        is_leap_def)

lemma nov1_index_zero: "nov1_index = Inr 0"
  by (simp add: nov1_index_def nov1_date_def start_dt_value mk_datetime_def days_in_month_def
        date_index_def timedelta_days_def py_int_def)









text \<open>
  Formatting moves a value by at most half a thousandth; the prints on double columns.
\<close>

lemma fmt3_close: "\<bar>fmt3 v - v\<bar> \<le> 1 / 2000"
proof -
  define q where "q = v * 1000"
  define f where "f = real_of_int \<lfloor>q\<rfloor>"
  define r where "r = (if q - f < 1 / 2 then f else if 1 / 2 < q - f then f + 1
                       else if even \<lfloor>q\<rfloor> then f else f + 1)"
  have b: "f \<le> q" "q < f + 1"
    unfolding f_def by linarith+
  then have c: "\<bar>r - q\<bar> \<le> 1 / 2"
    unfolding r_def by (simp split: if_splits)
  have x: "fmt3 v = r / 1000"
    by (simp add: fmt3_def Let_def q_def f_def r_def)
  have y: "v = q / 1000"
    by (simp add: q_def)
  have "fmt3 v - v = r / 1000 - q / 1000"
    by (subst x, subst y) (rule refl)
  then have "fmt3 v - v = (r - q) / 1000"
    by (simp only: diff_divide_distrib)
  then have "\<bar>fmt3 v - v\<bar> = \<bar>r - q\<bar> / 1000"
    by (simp only: abs_divide)
  also have "\<dots> \<le> (1 / 2) / 1000"
    using c by (rule divide_right_mono) simp
  finally show ?thesis
    by simp
qed

lemma getitem_first: "a \<noteq> [] \<Longrightarrow> getitem a 0 = Inr (a ! 0)"
  by (simp add: getitem_def)

lemma console_output_float:
  assumes "vecs \<noteq> []"
    and "column_dtype (map vx vecs) = Float64"
    and "column_dtype (map vy vecs) = Float64"
    and "column_dtype (map vz vecs) = Float64"
  shows "console_output ops vecs 0 =
           Inr ((fmt3 (filled sentinel (map vx vecs) ! 0), fmt3 (filled sentinel (map vy vecs) ! 0),
                 fmt3 (filled sentinel (map vz vecs) ! 0)),
                np_sqrt ops
                  (F64 (rnd ops
                     (rnd ops
                        (rnd ops (filled sentinel (map vx vecs) ! 0 * filled sentinel (map vx vecs) ! 0) +
                         rnd ops (filled sentinel (map vy vecs) ! 0 * filled sentinel (map vy vecs) ! 0)) +
                      rnd ops (filled sentinel (map vz vecs) ! 0 * filled sentinel (map vz vecs) ! 0)))))"
proof -
  from assms(1) have n: "filled sentinel (map f vecs) \<noteq> []" for f
    by (simp add: filled_def)
  have g: "getitem (map F64 (filled sentinel (map f vecs))) 0 =
             Inr (F64 (filled sentinel (map f vecs) ! 0))" for f
    using n [of f] by (simp add: getitem_def)
  show ?thesis
    by (simp add: console_output_def filled_typed_def assms(2-4) g)
qed

section \<open>The properties\<close>

subsection \<open>The date index\<close>

text \<open>
  C1 (amended). The start date parses to 2025-11-01 and the script's own target,
  2025-11-01, has index \<open>0\<close>. For a target \<open>n\<close> days from the start the index is \<open>n / 2\<close>
  with the fraction dropped: the floor of the quotient when \<open>n \<ge> 0\<close>, its ceiling when
  \<open>n < 0\<close>. The index is never compared with the length \<open>N\<close> of an array; the read
  decides. For \<open>0 \<le> n < 2 N\<close> it returns sample \<open>n div 2\<close>; for \<open>n \<ge> 2 N\<close> it raises
  \<^verbatim>\<open>IndexError\<close>; the day before the start has index \<open>0\<close> and reads the first sample; from
  two days to \<open>2 N + 1\<close> days before the start the index is negative and reads from the end
  of the array; earlier targets raise \<^verbatim>\<open>IndexError\<close>.
\<close>

theorem date_index_truncates_unchecked:
  assumes "n = timedelta_days target \<lparr>year = 2025, month = 11, day = 1\<rparr>"
    and "i = date_index \<lparr>year = 2025, month = 11, day = 1\<rparr> target"
  shows "start_dt = Inr \<lparr>year = 2025, month = 11, day = 1\<rparr> \<and>
         nov1_index = Inr 0 \<and>
         i = (if 0 \<le> n then n div 2 else - ((- n) div 2)) \<and>
         (0 \<le> n \<longrightarrow> i = \<lfloor>real_of_int n / 2\<rfloor>) \<and>
         (n < 0 \<longrightarrow> i = \<lceil>real_of_int n / 2\<rceil>) \<and>
         (0 \<le> n \<and> n < 2 * int (length a) \<longrightarrow> getitem a i = Inr (a ! nat (n div 2))) \<and>
         (2 * int (length a) \<le> n \<longrightarrow> getitem a i = Inl IndexError) \<and>
         (n = - 1 \<longrightarrow> getitem a i = (if a = [] then Inl IndexError else Inr (a ! 0))) \<and>
         (n \<le> - 2 \<and> - 2 * int (length a) - 1 \<le> n \<longrightarrow>
            i < 0 \<and> getitem a i = Inr (a ! nat (int (length a) - (- n) div 2))) \<and>
         (n \<le> - 2 * int (length a) - 2 \<longrightarrow> getitem a i = Inl IndexError)"
proof -
  have i: "i = (if 0 \<le> n then n div 2 else - ((- n) div 2))"
    unfolding assms by (rule date_index_div)
  have z: "nov1_index = Inr 0"
    by (simp add: nov1_index_def nov1_date_def start_dt_value mk_datetime_def days_in_month_def
          date_index_div timedelta_days_def)
  have f: "0 \<le> n \<longrightarrow> i = \<lfloor>real_of_int n / 2\<rfloor>"
    by (simp add: i floor_half)
  have c: "n < 0 \<longrightarrow> i = \<lceil>real_of_int n / 2\<rceil>"
    by (simp add: i ceiling_half)
  have d1: "0 \<le> n \<and> n < 2 * m \<longrightarrow> 0 \<le> n div 2 \<and> n div 2 < m" for m :: int
    by arith
  have d2: "0 \<le> n \<and> 2 * m \<le> n \<longrightarrow> m \<le> n div 2" for m :: int
    by arith
  have d3: "n \<le> - 2 \<and> - 2 * m - 1 \<le> n \<longrightarrow>
              - ((- n) div 2) < 0 \<and> 0 \<le> - ((- n) div 2) + m \<and> - ((- n) div 2) + m < m"
    for m :: int
    by arith
  have d4: "0 \<le> m \<and> n \<le> - 2 * m - 2 \<longrightarrow> - ((- n) div 2) < 0 \<and> - ((- n) div 2) + m < 0"
    for m :: int
    by arith
  have g1: "0 \<le> n \<and> n < 2 * int (length a) \<longrightarrow> getitem a i = Inr (a ! nat (n div 2))"
    using d1 [of "int (length a)"] by (auto simp: i getitem_def Let_def)
  have g2: "2 * int (length a) \<le> n \<longrightarrow> getitem a i = Inl IndexError"
    using d2 [of "int (length a)"] by (auto simp: i getitem_def Let_def)
  have g3: "n = - 1 \<longrightarrow> getitem a i = (if a = [] then Inl IndexError else Inr (a ! 0))"
    by (auto simp: i getitem_def Let_def)
  have g4: "n \<le> - 2 \<and> - 2 * int (length a) - 1 \<le> n \<longrightarrow>
            i < 0 \<and> getitem a i = Inr (a ! nat (int (length a) - (- n) div 2))"
    using d3 [of "int (length a)"] by (auto simp: i getitem_def Let_def add.commute)
  have g5: "n \<le> - 2 * int (length a) - 2 \<longrightarrow> getitem a i = Inl IndexError"
    using d4 [of "int (length a)"] by (auto simp: i getitem_def Let_def)
  from start_dt_value z i f c g1 g2 g3 g4 g5 show ?thesis
    by blast
qed

text \<open>
  With two samples: three days after the start, fourteen months after it, and three days
  before it.
\<close>

theorem date_index_truncates_unchecked_witness:
  "date_index \<lparr>year = 2025, month = 11, day = 1\<rparr> \<lparr>year = 2025, month = 11, day = 4\<rparr> = 1 \<and>
   getitem [1, 4 :: real]
     (date_index \<lparr>year = 2025, month = 11, day = 1\<rparr> \<lparr>year = 2025, month = 11, day = 4\<rparr>) = Inr 4 \<and>
   date_index \<lparr>year = 2025, month = 11, day = 1\<rparr> \<lparr>year = 2027, month = 1, day = 1\<rparr> = 213 \<and>
   getitem [1, 4 :: real]
     (date_index \<lparr>year = 2025, month = 11, day = 1\<rparr> \<lparr>year = 2027, month = 1, day = 1\<rparr>) =
     Inl IndexError \<and>
   date_index \<lparr>year = 2025, month = 11, day = 1\<rparr> \<lparr>year = 2025, month = 10, day = 29\<rparr> = - 1 \<and>
   getitem [1, 4 :: real]
     (date_index \<lparr>year = 2025, month = 11, day = 1\<rparr> \<lparr>year = 2025, month = 10, day = 29\<rparr>) = Inr 4"
  using date_index_truncates_unchecked
      [OF refl refl, of "\<lparr>year = 2025, month = 11, day = 4\<rparr>" "[1, 4 :: real]"]
    date_index_truncates_unchecked
      [OF refl refl, of "\<lparr>year = 2027, month = 1, day = 1\<rparr>" "[1, 4 :: real]"]
    date_index_truncates_unchecked
      [OF refl refl, of "\<lparr>year = 2025, month = 10, day = 29\<rparr>" "[1, 4 :: real]"]
  unfolding days_from_start
  by (simp add: getitem_def)

text \<open>
  The day before the start, a valid date outside the fetched range: the script computes
  \<open>int(-0.5) = 0\<close> where the floor is \<open>-1\<close>, and the read of index \<open>0\<close> succeeds.
\<close>

theorem date_index_floor_counterexample:
  "mk_datetime 2025 10 31 = Inr \<lparr>year = 2025, month = 10, day = 31\<rparr> \<and>
   date_index \<lparr>year = 2025, month = 11, day = 1\<rparr> \<lparr>year = 2025, month = 10, day = 31\<rparr> = 0 \<and>
   \<lfloor>real_of_int (timedelta_days \<lparr>year = 2025, month = 10, day = 31\<rparr>
                     \<lparr>year = 2025, month = 11, day = 1\<rparr>) / 2\<rfloor> = - 1 \<and>
   getitem (comet_x two_epochs_data)
     (date_index \<lparr>year = 2025, month = 11, day = 1\<rparr> \<lparr>year = 2025, month = 10, day = 31\<rparr>) =
     Inr 1"
proof -
  have i: "date_index \<lparr>year = 2025, month = 11, day = 1\<rparr>
             \<lparr>year = 2025, month = 10, day = 31\<rparr> = 0"
    unfolding date_index_div days_from_start by simp
  have "\<lfloor>real_of_int (- 1) / 2\<rfloor> = - 1"
    by (simp only: floor_half)
  moreover have "mk_datetime 2025 10 31 = Inr \<lparr>year = 2025, month = 10, day = 31\<rparr>"
    by (simp add: mk_datetime_def days_in_month_def is_leap_def)
  moreover have "getitem (comet_x two_epochs_data) 0 = Inr 1"
    by (simp add: getitem_def two_epochs_data_def)
  ultimately show ?thesis
    unfolding i days_from_start by simp
qed
subsection \<open>The fetch\<close>

text \<open>
  C5. When the four queries are answered with tables, whatever entries of them are masked,
  the fetch succeeds, and for the comet and for each planet every array has the length of
  its column, holds \<open>1e10\<close> where the entry is masked and the entry itself elsewhere.
\<close>

theorem fetch_fills_masked_samples:
  assumes "srv obj_id location query_epochs = Inr tc"
    and "srv ''399'' location query_epochs = Inr te"
    and "srv ''499'' location query_epochs = Inr tm"
    and "srv ''599'' location query_epochs = Inr tj"
  shows "\<exists>d ce cm cj.
           fetch srv = Inr d \<and>
           passed_through tc \<lparr>cx = comet_x d, cy = comet_y d, cz = comet_z d\<rparr> \<and>
           planet_positions d = [(''Earth'', ce), (''Mars'', cm), (''Jupiter'', cj)] \<and>
           passed_through te ce \<and> passed_through tm cm \<and> passed_through tj cj"
proof -
  have "fetch srv =
          Inr \<lparr>comet_x = filled sentinel (map vx tc), comet_y = filled sentinel (map vy tc),
               comet_z = filled sentinel (map vz tc),
               planet_positions = [(''Earth'', arrays_of te), (''Mars'', arrays_of tm),
                                   (''Jupiter'', arrays_of tj)]\<rparr>"
    by (simp add: fetch_def fetch_planets_ids assms)
  moreover have "passed_through tc (arrays_of tc)" "passed_through te (arrays_of te)"
    "passed_through tm (arrays_of tm)" "passed_through tj (arrays_of tj)"
    by (rule passed_through_arrays)+
  ultimately show ?thesis
    by simp
qed

theorem fetch_fills_masked_samples_witness:
  "fetch two_epochs = Inr two_epochs_data \<and>
   comet_y two_epochs_data ! 0 = 10000000000 \<and> comet_y two_epochs_data ! 1 = 5 \<and>
   passed_through
     [\<lparr>datetime_jd = 2460980.5, vx = Some 1, vy = None, vz = Some 3\<rparr>,
      \<lparr>datetime_jd = 2460982.5, vx = Some 4, vy = Some 5, vz = None\<rparr>]
     \<lparr>cx = comet_x two_epochs_data, cy = comet_y two_epochs_data, cz = comet_z two_epochs_data\<rparr>"
proof -
  have q: "two_epochs obj_id location query_epochs =
             Inr [\<lparr>datetime_jd = 2460980.5, vx = Some 1, vy = None, vz = Some 3\<rparr>,
                  \<lparr>datetime_jd = 2460982.5, vx = Some 4, vy = Some 5, vz = None\<rparr>]"
    "two_epochs ''399'' location query_epochs =
             Inr [\<lparr>datetime_jd = 2460980.5, vx = Some 7, vy = Some 8, vz = None\<rparr>,
                  \<lparr>datetime_jd = 2460982.5, vx = None, vy = Some 9, vz = Some 2\<rparr>]"
    "two_epochs ''499'' location query_epochs =
             Inr [\<lparr>datetime_jd = 2460980.5, vx = Some 7, vy = Some 8, vz = None\<rparr>,
                  \<lparr>datetime_jd = 2460982.5, vx = None, vy = Some 9, vz = Some 2\<rparr>]"
    "two_epochs ''599'' location query_epochs =
             Inr [\<lparr>datetime_jd = 2460980.5, vx = Some 7, vy = Some 8, vz = None\<rparr>,
                  \<lparr>datetime_jd = 2460982.5, vx = None, vy = Some 9, vz = Some 2\<rparr>]"
    by (simp_all add: two_epochs_def obj_id_def)
  have "comet_y two_epochs_data ! 0 = 10000000000" "comet_y two_epochs_data ! 1 = 5"
    by (simp_all add: two_epochs_data_def)
  with fetch_fills_masked_samples [of two_epochs, OF q] show ?thesis
    by (auto simp: fetch_two_epochs)
qed

text \<open>
  C6. The four queries are made with the same start, stop and step. For a service that
  answers one range with the same epochs for every body, the twelve arrays of a fetch have
  one length, the number of epochs, and entry \<open>i\<close> of every array comes from the row of
  epoch \<open>i\<close>.
\<close>

theorem fetched_sequences_equal_length:
  assumes "epochs_by_range srv" and "fetch srv = Inr d"
  shows "\<exists>tc te tm tj.
           srv obj_id location query_epochs = Inr tc \<and>
           srv ''399'' location query_epochs = Inr te \<and>
           srv ''499'' location query_epochs = Inr tm \<and>
           srv ''599'' location query_epochs = Inr tj \<and>
           map datetime_jd te = map datetime_jd tc \<and>
           map datetime_jd tm = map datetime_jd tc \<and>
           map datetime_jd tj = map datetime_jd tc \<and>
           length (comet_x d) = length (map datetime_jd tc) \<and>
           aligned d \<and>
           passed_through tc \<lparr>cx = comet_x d, cy = comet_y d, cz = comet_z d\<rparr> \<and>
           planet_positions d =
             [(''Earth'', arrays_of te), (''Mars'', arrays_of tm), (''Jupiter'', arrays_of tj)]"
proof -
  from fetch_shape [OF assms(2)] obtain tc te tm tj where
    q: "srv obj_id location query_epochs = Inr tc"
      "srv ''399'' location query_epochs = Inr te"
      "srv ''499'' location query_epochs = Inr tm"
      "srv ''599'' location query_epochs = Inr tj"
    and d: "d = \<lparr>comet_x = filled sentinel (map vx tc), comet_y = filled sentinel (map vy tc),
          comet_z = filled sentinel (map vz tc),
          planet_positions = [(''Earth'', arrays_of te), (''Mars'', arrays_of tm),
                              (''Jupiter'', arrays_of tj)]\<rparr>"
    by blast
  from assms(1) q have e: "map datetime_jd te = map datetime_jd tc"
    "map datetime_jd tm = map datetime_jd tc" "map datetime_jd tj = map datetime_jd tc"
    unfolding epochs_by_range_def by blast+
  then have "length (map datetime_jd te) = length (map datetime_jd tc)"
    "length (map datetime_jd tm) = length (map datetime_jd tc)"
    "length (map datetime_jd tj) = length (map datetime_jd tc)"
    by simp_all
  then have len: "length te = length tc" "length tm = length tc" "length tj = length tc"
    by simp_all
  have al: "aligned d"
    by (simp add: aligned_def d length_filled len)
  have pt: "passed_through tc \<lparr>cx = comet_x d, cy = comet_y d, cz = comet_z d\<rparr>"
    using passed_through_arrays [of tc] by (simp add: d)
  from q e al pt show ?thesis
    by (simp add: d length_filled)
qed

theorem fetched_sequences_equal_length_witness:
  "aligned two_epochs_data \<and> length (comet_x two_epochs_data) = 2 \<and>
   map (\<lambda>(planet, c). (length (cx c), length (cy c), length (cz c)))
     (planet_positions two_epochs_data) = [(2, 2, 2), (2, 2, 2), (2, 2, 2)]"
  using fetched_sequences_equal_length [OF epochs_by_range_two_epochs fetch_two_epochs]
  by (auto simp: two_epochs_data_def)

subsection \<open>The static scene\<close>


subsection \<open>The callback\<close>

text \<open>
  C2. After a fetch, for every frame \<open>k\<close> with \<open>0 \<le> k < N\<close>, where \<open>N\<close> is the length of the
  comet's arrays, the call at frame \<open>k\<close> leaves the trajectory line holding exactly the first
  \<open>k + 1\<close> samples of the comet's \<open>x\<close>, \<open>y\<close> and \<open>z\<close> arrays: entries \<open>0\<close> to \<open>k\<close>.
\<close>

theorem update_draws_path_prefix:
  assumes "fetch srv = Inr (data w)"
    and "0 \<le> k" and "k < int (length (comet_x (data w)))"
  shows "artists (snd (update k w)) Line =
           \<lparr>xdata = take (nat k + 1) (comet_x (data w)),
            ydata = take (nat k + 1) (comet_y (data w)),
            verts3d = (take (nat k + 1) (comet_x (data w)), take (nat k + 1) (comet_y (data w)),
                       take (nat k + 1) (comet_z (data w)))\<rparr> \<and>
         length (take (nat k + 1) (comet_x (data w))) = nat k + 1 \<and>
         length (take (nat k + 1) (comet_y (data w))) = nat k + 1 \<and>
         length (take (nat k + 1) (comet_z (data w))) = nat k + 1 \<and>
         (\<forall>i \<le> nat k.
            take (nat k + 1) (comet_x (data w)) ! i = comet_x (data w) ! i \<and>
            take (nat k + 1) (comet_y (data w)) ! i = comet_y (data w) ! i \<and>
            take (nat k + 1) (comet_z (data w)) ! i = comet_z (data w) ! i)"
proof -
  from fetch_shape [OF assms(1)] obtain tc :: table where
    "comet_x (data w) = filled sentinel (map vx tc)"
    "comet_y (data w) = filled sentinel (map vy tc)"
    "comet_z (data w) = filled sentinel (map vz tc)"
    by auto
  then have len: "length (comet_y (data w)) = length (comet_x (data w))"
    "length (comet_z (data w)) = length (comet_x (data w))"
    by (simp_all add: length_filled)
  from assms(2,3) have "nat k + 1 \<le> length (comet_x (data w))"
    by linarith
  with len show ?thesis
    by (simp add: update_line [OF assms(2)])
qed

theorem update_draws_path_prefix_witness:
  "verts3d (artists (snd (update 1 (startup two_epochs_data))) Line) =
     ([1, 4], [10000000000, 5], [3, 10000000000]) \<and>
   verts3d (artists (snd (update 0 (startup two_epochs_data))) Line) =
     ([1], [10000000000], [3])"
  using update_draws_path_prefix [OF fetch_startup_two_epochs, of 1]
    update_draws_path_prefix [OF fetch_startup_two_epochs, of 0]
  by (simp add: startup_two_epochs) (simp add: two_epochs_data_def)

text \<open>
  C3. After a fetch, for every frame \<open>k\<close> with \<open>0 \<le> k < N\<close> at which every planet has a sample
  (as the data model's invariant of equal lengths gives), the call at frame \<open>k\<close> leaves the
  comet marker at the comet's sample \<open>k\<close> and the markers of Earth, Mars and Jupiter at
  that planet's sample \<open>k\<close>.
\<close>

theorem update_sets_markers:
  assumes "fetch srv = Inr (data w)"
    and "0 \<le> k" and "k < int (length (comet_x (data w)))"
    and "planets_sampled (data w) k"
  shows "\<exists>ce cm cj.
           dict_get (planet_positions (data w)) ''Earth'' = Inr ce \<and>
           dict_get (planet_positions (data w)) ''Mars'' = Inr cm \<and>
           dict_get (planet_positions (data w)) ''Jupiter'' = Inr cj \<and>
           artists (snd (update k w)) Comet_marker =
             point (comet_x (data w) ! nat k) (comet_y (data w) ! nat k) (comet_z (data w) ! nat k) \<and>
           artists (snd (update k w)) Earth_marker =
             point (cx ce ! nat k) (cy ce ! nat k) (cz ce ! nat k) \<and>
           artists (snd (update k w)) Mars_marker =
             point (cx cm ! nat k) (cy cm ! nat k) (cz cm ! nat k) \<and>
           artists (snd (update k w)) Jupiter_marker =
             point (cx cj ! nat k) (cy cj ! nat k) (cz cj ! nat k)"
proof -
  from assms obtain ce cm cj where
    pp: "planet_positions (data w) = [(''Earth'', ce), (''Mars'', cm), (''Jupiter'', cj)]"
    and u: "update k w =
       (Inr [Line, Comet_marker, Earth_marker, Mars_marker, Jupiter_marker],
        w\<lparr>artists := (artists w)
             (Line := \<lparr>xdata = take (nat k + 1) (comet_x (data w)),
                       ydata = take (nat k + 1) (comet_y (data w)),
                       verts3d = (take (nat k + 1) (comet_x (data w)),
                                  take (nat k + 1) (comet_y (data w)),
                                  take (nat k + 1) (comet_z (data w)))\<rparr>,
              Comet_marker := point (comet_x (data w) ! nat k) (comet_y (data w) ! nat k)
                                (comet_z (data w) ! nat k),
              Earth_marker := point (cx ce ! nat k) (cy ce ! nat k) (cz ce ! nat k),
              Mars_marker := point (cx cm ! nat k) (cy cm ! nat k) (cz cm ! nat k),
              Jupiter_marker := point (cx cj ! nat k) (cy cj ! nat k) (cz cj ! nat k))\<rparr>)"
    by (rule update_in_range)
  show ?thesis
    unfolding u pp by simp
qed

theorem update_sets_markers_witness:
  "artists (snd (update 1 (startup two_epochs_data))) Comet_marker = point 4 5 10000000000 \<and>
   artists (snd (update 1 (startup two_epochs_data))) Earth_marker = point 10000000000 9 2 \<and>
   artists (snd (update 1 (startup two_epochs_data))) Mars_marker = point 10000000000 9 2 \<and>
   artists (snd (update 1 (startup two_epochs_data))) Jupiter_marker = point 10000000000 9 2"
  using update_sets_markers [OF fetch_startup_two_epochs, of 1]
  by (simp add: startup_two_epochs two_epochs_sampled) (simp add: two_epochs_data_def)

text \<open>
  C9. Every call of the callback, at any frame and in any state, raising or not, leaves the
  fetched arrays as they were: the comet's three arrays and the dictionary of the planets'
  arrays. Only the artists change.
\<close>

theorem update_leaves_data_unchanged:
  "data (snd (update k w)) = data w \<and>
   comet_x (data (snd (update k w))) = comet_x (data w) \<and>
   comet_y (data (snd (update k w))) = comet_y (data w) \<and>
   comet_z (data (snd (update k w))) = comet_z (data w) \<and>
   planet_positions (data (snd (update k w))) = planet_positions (data w)"
proof -
  have "data (snd (update k w)) = data w"
    by (rule update_data)
  then show ?thesis
    by simp
qed

theorem update_leaves_data_unchanged_witness:
  "data (snd (update 1 (startup two_epochs_data))) = two_epochs_data \<and>
   data (snd (update 7 (startup two_epochs_data))) = two_epochs_data"
  using update_leaves_data_unchanged [of 1 "startup two_epochs_data"]
    update_leaves_data_unchanged [of 7 "startup two_epochs_data"]
  by (simp add: startup_two_epochs)

text \<open>
  C10. For a frame \<open>k\<close> in range at which every planet has a sample, the call returns the
  five artists in the order line, comet marker, Earth, Mars, Jupiter, and two calls at
  frame \<open>k\<close> in states that hold the same fetched data return the same list and leave every
  artist with the same coordinates, whatever the artists held before. At any frame at all,
  two such calls end the same way: with the same list or with the same exception.
\<close>

theorem update_deterministic_five_artists:
  assumes "fetch srv = Inr (data w)"
    and "0 \<le> k" and "k < int (length (comet_x (data w)))"
    and "planets_sampled (data w) k"
    and "data w' = data w"
  shows "fst (update k w) = Inr [Line, Comet_marker, Earth_marker, Mars_marker, Jupiter_marker] \<and>
         fst (update k w') = fst (update k w) \<and>
         artists (snd (update k w')) = artists (snd (update k w)) \<and>
         (\<forall>j. fst (update j w') = fst (update j w))"
proof -
  from assms(1-4) obtain ce cm cj where
    pp: "planet_positions (data w) = [(''Earth'', ce), (''Mars'', cm), (''Jupiter'', cj)]"
    and u: "update k w =
       (Inr [Line, Comet_marker, Earth_marker, Mars_marker, Jupiter_marker],
        w\<lparr>artists := (artists w)
             (Line := \<lparr>xdata = take (nat k + 1) (comet_x (data w)),
                       ydata = take (nat k + 1) (comet_y (data w)),
                       verts3d = (take (nat k + 1) (comet_x (data w)),
                                  take (nat k + 1) (comet_y (data w)),
                                  take (nat k + 1) (comet_z (data w)))\<rparr>,
              Comet_marker := point (comet_x (data w) ! nat k) (comet_y (data w) ! nat k)
                                (comet_z (data w) ! nat k),
              Earth_marker := point (cx ce ! nat k) (cy ce ! nat k) (cz ce ! nat k),
              Mars_marker := point (cx cm ! nat k) (cy cm ! nat k) (cz cm ! nat k),
              Jupiter_marker := point (cx cj ! nat k) (cy cj ! nat k) (cz cj ! nat k))\<rparr>)"
    by (rule update_in_range)
  from assms have a': "fetch srv = Inr (data w')" "k < int (length (comet_x (data w')))"
    "planets_sampled (data w') k"
    by simp_all
  from a'(1) assms(2) a'(2,3) obtain ce' cm' cj' where
    pp': "planet_positions (data w') = [(''Earth'', ce'), (''Mars'', cm'), (''Jupiter'', cj')]"
    and u': "update k w' =
       (Inr [Line, Comet_marker, Earth_marker, Mars_marker, Jupiter_marker],
        w'\<lparr>artists := (artists w')
             (Line := \<lparr>xdata = take (nat k + 1) (comet_x (data w')),
                       ydata = take (nat k + 1) (comet_y (data w')),
                       verts3d = (take (nat k + 1) (comet_x (data w')),
                                  take (nat k + 1) (comet_y (data w')),
                                  take (nat k + 1) (comet_z (data w')))\<rparr>,
              Comet_marker := point (comet_x (data w') ! nat k) (comet_y (data w') ! nat k)
                                (comet_z (data w') ! nat k),
              Earth_marker := point (cx ce' ! nat k) (cy ce' ! nat k) (cz ce' ! nat k),
              Mars_marker := point (cx cm' ! nat k) (cy cm' ! nat k) (cz cm' ! nat k),
              Jupiter_marker := point (cx cj' ! nat k) (cy cj' ! nat k) (cz cj' ! nat k))\<rparr>)"
    by (rule update_in_range)
  from pp pp' assms(5) have e: "ce' = ce" "cm' = cm" "cj' = cj"
    by simp_all
  have "artists (snd (update k w')) a = artists (snd (update k w)) a" for a
    unfolding u u' e by (cases a) (simp_all add: assms(5))
  moreover have "fst (update j w') = fst (update j w)" for j
    using assms(5) by (rule update_outcome)
  ultimately show ?thesis
    unfolding u u' by auto
qed

theorem update_deterministic_five_artists_witness:
  "fst (update 1 (startup two_epochs_data)) =
     Inr [Line, Comet_marker, Earth_marker, Mars_marker, Jupiter_marker] \<and>
   fst (update 1 \<lparr>data = two_epochs_data, artists = (\<lambda>a. point 0 0 0)\<rparr>) =
     fst (update 1 (startup two_epochs_data)) \<and>
   artists (snd (update 1 \<lparr>data = two_epochs_data, artists = (\<lambda>a. point 0 0 0)\<rparr>)) =
     artists (snd (update 1 (startup two_epochs_data))) \<and>
   fst (update 2 \<lparr>data = two_epochs_data, artists = (\<lambda>a. point 0 0 0)\<rparr>) =
     fst (update 2 (startup two_epochs_data))"
  using update_deterministic_five_artists
    [OF fetch_startup_two_epochs, of 1 "\<lparr>data = two_epochs_data, artists = (\<lambda>a. point 0 0 0)\<rparr>"]
  by (simp add: startup_two_epochs two_epochs_sampled) (simp add: two_epochs_data_def)

subsection \<open>The animation driver\<close>

text \<open>
  C4. The frames are \<open>0, 1, ..., N - 1\<close> for \<open>N\<close> the length of the comet's \<open>x\<close> array, and
  every frame the save passes to the callback lies between \<open>0\<close> and \<open>N - 1\<close>. At frame
  \<open>N - 1\<close> the comet marker is at the last sample of the comet. When every sequence of
  every body has length \<open>N\<close>, no call on such a frame raises, in any state holding the same
  data, and the whole save goes through.
\<close>

theorem animation_frames_in_range:
  assumes "fetch srv = Inr (data w)"
  shows "frame_seq w = map int [0 ..< length (comet_x (data w))] \<and>
         (\<forall>f \<in> set (saved_frames w). 0 \<le> f \<and> f \<le> int (length (comet_x (data w))) - 1) \<and>
         (0 < length (comet_x (data w)) \<longrightarrow>
            artists (snd (update (int (length (comet_x (data w))) - 1) w)) Comet_marker =
              point (last (comet_x (data w))) (last (comet_y (data w))) (last (comet_z (data w)))) \<and>
         (aligned (data w) \<longrightarrow>
            (\<forall>f \<in> set (saved_frames w). \<forall>w'. data w' = data w \<longrightarrow>
               fst (update f w') =
                 Inr [Line, Comet_marker, Earth_marker, Mars_marker, Jupiter_marker]) \<and>
            fst (ani_save w) = Inr ())"
proof -
  let ?n = "length (comet_x (data w))"
  have a: "frame_seq w = map int [0 ..< ?n]"
    by (simp add: frame_seq_def)
  have b: "\<forall>f \<in> set (saved_frames w). 0 \<le> f \<and> f \<le> int ?n - 1"
    using saved_frames_range [of _ w] by fastforce
  have c: "artists (snd (update (int ?n - 1) w)) Comet_marker =
              point (last (comet_x (data w))) (last (comet_y (data w))) (last (comet_z (data w)))"
    if pos: "0 < ?n"
  proof -
    from fetch_shape [OF assms] obtain tc :: table where
      "comet_x (data w) = filled sentinel (map vx tc)"
      "comet_y (data w) = filled sentinel (map vy tc)"
      "comet_z (data w) = filled sentinel (map vz tc)"
      by auto
    then have len: "length (comet_y (data w)) = ?n" "length (comet_z (data w)) = ?n"
      by (simp_all add: length_filled)
    from pos have n: "nat (int ?n - 1) = ?n - 1"
      by simp
    from pos len have "comet_x (data w) \<noteq> []" "comet_y (data w) \<noteq> []" "comet_z (data w) \<noteq> []"
      by auto
    then have "last (comet_x (data w)) = comet_x (data w) ! (?n - 1)"
      "last (comet_y (data w)) = comet_y (data w) ! (?n - 1)"
      "last (comet_z (data w)) = comet_z (data w) ! (?n - 1)"
      using len by (simp_all add: last_conv_nth)
    moreover from pos have "0 \<le> int ?n - 1" "int ?n - 1 < int ?n"
      by simp_all
    ultimately show ?thesis
      using update_comet_marker [OF assms, of "int ?n - 1"] n by simp
  qed
  have d: "fst (update f w') = Inr [Line, Comet_marker, Earth_marker, Mars_marker, Jupiter_marker]"
    if "aligned (data w)" "f \<in> set (saved_frames w)" "data w' = data w" for f w'
  proof -
    from that(2) have "0 \<le> f" "f < int ?n"
      using saved_frames_range by blast+
    with that(1,3) assms show ?thesis
      by (simp add: update_ok)
  qed
  have e: "fst (ani_save w) = Inr ()" if "aligned (data w)"
    unfolding ani_save_def
    using draw_frames_ok [OF assms that, of w "saved_frames w"] saved_frames_range [of _ w]
    by blast
  from a b c d e show ?thesis
    by blast
qed

theorem animation_frames_in_range_witness:
  "frame_seq (startup two_epochs_data) = [0, 1] \<and>
   saved_frames (startup two_epochs_data) = [0, 0, 1] \<and>
   artists (snd (update 1 (startup two_epochs_data))) Comet_marker = point 4 5 10000000000 \<and>
   fst (update 0 (startup two_epochs_data)) =
     Inr [Line, Comet_marker, Earth_marker, Mars_marker, Jupiter_marker] \<and>
   fst (ani_save (startup two_epochs_data)) = Inr ()"
proof -
  have n: "length (comet_x (data (startup two_epochs_data))) = 2"
    by (simp add: startup_def two_epochs_data_def)
  have s: "saved_frames (startup two_epochs_data) = [0, 0, 1]"
    by (simp add: saved_frames_def frame_seq_def n upt_rec)
  have l: "last (comet_x two_epochs_data) = 4" "last (comet_y two_epochs_data) = 5"
    "last (comet_z two_epochs_data) = 10000000000"
    by (simp_all add: two_epochs_data_def)
  show ?thesis
    using animation_frames_in_range [OF fetch_startup_two_epochs]
    unfolding n s
    by (simp add: startup_two_epochs aligned_two_epochs l upt_rec)
qed

subsection \<open>The console output\<close>

text \<open>
  C8 (amended). The highlight index is \<open>0\<close>. When the comet's table has a row and none
  of its three coordinate columns is wholly masked, the prints show the comet's first
  sample, each coordinate rounded to three decimals (so within \<open>0.0005\<close> of it), and the
  distance computed from the unrounded sample as the square root of the sum of the three
  squares, every operation rounded to a double; in exact arithmetic that is the Euclidean
  norm of the sample.
\<close>

theorem console_prints_sample_and_norm:
  assumes "srv obj_id location query_epochs = Inr vecs"
    and "fetch srv = Inr d"
    and "vecs \<noteq> []"
    and "column_dtype (map vx vecs) = Float64"
    and "column_dtype (map vy vecs) = Float64"
    and "column_dtype (map vz vecs) = Float64"
    and "x0 = comet_x d ! 0" and "y0 = comet_y d ! 0" and "z0 = comet_z d ! 0"
  shows "nov1_index = Inr 0 \<and>
         console_output ops vecs 0 =
           Inr ((fmt3 x0, fmt3 y0, fmt3 z0),
                np_sqrt ops
                  (F64 (rnd ops (rnd ops (rnd ops (x0 * x0) + rnd ops (y0 * y0)) +
                                 rnd ops (z0 * z0))))) \<and>
         \<bar>fmt3 x0 - x0\<bar> \<le> 1 / 2000 \<and> \<bar>fmt3 y0 - y0\<bar> \<le> 1 / 2000 \<and>
         \<bar>fmt3 z0 - z0\<bar> \<le> 1 / 2000 \<and>
         console_output exact vecs 0 =
           Inr ((fmt3 x0, fmt3 y0, fmt3 z0), Some (sqrt (x0\<^sup>2 + y0\<^sup>2 + z0\<^sup>2)))"
proof -
  from fetch_shape [OF assms(2)] assms(1)
  have d: "comet_x d = filled sentinel (map vx vecs)" "comet_y d = filled sentinel (map vy vecs)"
    "comet_z d = filled sentinel (map vz vecs)"
    by auto
  have a: "console_output ops' vecs 0 =
           Inr ((fmt3 x0, fmt3 y0, fmt3 z0),
                np_sqrt ops'
                  (F64 (rnd ops' (rnd ops' (rnd ops' (x0 * x0) + rnd ops' (y0 * y0)) +
                                  rnd ops' (z0 * z0)))))" for ops'
    unfolding assms(7-9) d by (rule console_output_float [OF assms(3-6)])
  have "\<not> x0\<^sup>2 + y0\<^sup>2 + z0\<^sup>2 < 0"
    by (simp add: not_less add_nonneg_nonneg)
  then have "np_sqrt exact (F64 (rnd exact (rnd exact (rnd exact (x0 * x0) + rnd exact (y0 * y0)) +
                                 rnd exact (z0 * z0)))) =
             Some (sqrt (x0\<^sup>2 + y0\<^sup>2 + z0\<^sup>2))"
    by (simp add: exact_def power2_eq_square)
  with a [of exact] have e: "console_output exact vecs 0 =
           Inr ((fmt3 x0, fmt3 y0, fmt3 z0), Some (sqrt (x0\<^sup>2 + y0\<^sup>2 + z0\<^sup>2)))"
    by simp
  from a [of ops] nov1_index_zero e fmt3_close [of x0] fmt3_close [of y0] fmt3_close [of z0]
  show ?thesis
    by blast
qed

theorem console_prints_sample_and_norm_witness:
  "console_output exact
     [\<lparr>datetime_jd = 2460980.5, vx = Some 1, vy = None, vz = Some 3\<rparr>,
      \<lparr>datetime_jd = 2460982.5, vx = Some 4, vy = Some 5, vz = None\<rparr>] 0 =
     Inr ((1, 10000000000, 3), Some (sqrt 100000000000000000010))"
proof -
  let ?t = "[\<lparr>datetime_jd = 2460980.5, vx = Some 1, vy = None, vz = Some 3\<rparr>,
             \<lparr>datetime_jd = 2460982.5, vx = Some 4, vy = Some 5, vz = None\<rparr>]"
  have q: "two_epochs obj_id location query_epochs = Inr ?t"
    by (simp add: two_epochs_def)
  have c: "column_dtype (map vx ?t) = Float64" "column_dtype (map vy ?t) = Float64"
    "column_dtype (map vz ?t) = Float64"
    by (simp_all add: column_dtype_def)
  have f: "fmt3 1 = 1" "fmt3 10000000000 = 10000000000" "fmt3 3 = 3"
    by (simp_all add: fmt3_def)
  from console_prints_sample_and_norm [of two_epochs, OF q fetch_two_epochs _ c refl refl refl,
      of exact]
  have "console_output exact ?t 0 =
          Inr ((fmt3 (comet_x two_epochs_data ! 0), fmt3 (comet_y two_epochs_data ! 0),
                fmt3 (comet_z two_epochs_data ! 0)),
               Some (sqrt ((comet_x two_epochs_data ! 0)\<^sup>2 + (comet_y two_epochs_data ! 0)\<^sup>2 +
                           (comet_z two_epochs_data ! 0)\<^sup>2)))"
    by blast
  then show ?thesis
    by (simp add: two_epochs_data_def f)
qed

text \<open>
  A wholly masked \<open>x\<close> column is an integer column: the sample is \<open>(10^10, 0, 0)\<close>, its
  square wraps to \<open>7766279631452241920\<close>, and the distance shown is the root of that, not
  \<open>10^10\<close>. And a coordinate of \<open>1 / 2048\<close> is shown as zero.
\<close>

theorem console_distance_counterexample:
  "column_dtype (map vx [\<lparr>datetime_jd = 2460980.5, vx = None, vy = Some 0, vz = Some 0\<rparr>]) = Int64 \<and>
   filled sentinel (map vx [\<lparr>datetime_jd = 2460980.5, vx = None, vy = Some 0, vz = Some 0\<rparr>]) ! 0 =
     10000000000 \<and>
   console_output exact [\<lparr>datetime_jd = 2460980.5, vx = None, vy = Some 0, vz = Some 0\<rparr>] 0 =
     Inr ((10000000000, 0, 0), Some (sqrt 7766279631452241920)) \<and>
   sqrt 7766279631452241920 \<noteq> sqrt (10000000000\<^sup>2 + 0\<^sup>2 + 0\<^sup>2) \<and>
   console_output exact
     [\<lparr>datetime_jd = 2460980.5, vx = Some (1 / 2048), vy = Some 0, vz = Some 0\<rparr>] 0 =
     Inr ((0, 0, 0), Some (1 / 2048))"
proof -
  have a: "sqrt ((1 / 2048) * (1 / 2048)) = 1 / 2048"
    using real_sqrt_abs2 [of "1 / 2048"] by simp
  have b: "sqrt 7766279631452241920 \<noteq> 10000000000"
  proof
    assume "sqrt 7766279631452241920 = 10000000000"
    then have "(sqrt 7766279631452241920)\<^sup>2 = 10000000000\<^sup>2"
      by simp
    then show False
      by simp
  qed
  from a b show ?thesis
    by (simp add: console_output_def filled_typed_def column_dtype_def filled_def sentinel_def
          getitem_def exact_def wrap64_def fmt3_def)
qed

end
